theory Spec2Isabelle
  imports Complex_Main
begin

section \<open>Values of the host language\<close>

text \<open>
  The events of \<^verbatim>\<open>events_block_change.js\<close> carry values of any JavaScript type
  (\<^verbatim>\<open>@param {*=} opt_oldValue\<close>). The model keeps the value types of the
  language edition the source is written in: undefined, null, booleans, numbers,
  strings and object references. A number is NaN, an infinity or a finite value;
  the two zeros are one value, as every comparison of the source treats them alike.
  An object is known by its reference only.
\<close>

datatype jsnum = NaN | Finite rat | PosInfinity | NegInfinity

datatype jsval =
    JUndefined
  | JNull
  | JBool bool
  | JNum jsnum
  | JStr string
  | JObj nat

datatype error = TypeError

text \<open>ToBoolean: what \<^verbatim>\<open>if (v)\<close>, \<^verbatim>\<open>!v\<close> and \<^verbatim>\<open>v || w\<close> test.\<close>

fun truthy :: "jsval \<Rightarrow> bool" where
  "truthy JUndefined = False"
| "truthy JNull = False"
| "truthy (JBool b) = b"
| "truthy (JNum NaN) = False"
| "truthy (JNum (Finite q)) = (q \<noteq> 0)"
| "truthy (JNum PosInfinity) = True"
| "truthy (JNum NegInfinity) = True"
| "truthy (JStr s) = (s \<noteq> [])"
| "truthy (JObj r) = True"

text \<open>\<^verbatim>\<open>a || b\<close> on values: the left operand when it is truthy, else the right one.\<close>

definition js_or :: "jsval \<Rightarrow> jsval \<Rightarrow> jsval" where
  "js_or a b = (if truthy a then a else b)"

text \<open>Equality of two numbers: NaN equals nothing, itself included.\<close>

fun strict_num_eq :: "jsnum \<Rightarrow> jsnum \<Rightarrow> bool" where
  "strict_num_eq NaN y = False"
| "strict_num_eq x NaN = False"
| "strict_num_eq x y = (x = y)"

definition boolToNumber :: "bool \<Rightarrow> jsnum" where
  "boolToNumber b = Finite (if b then 1 else 0)"

fun rank :: "jsval \<Rightarrow> nat" where
  "rank (JObj r) = 3"
| "rank (JBool b) = 2"
| "rank (JStr s) = 1"
| "rank v = 0"

text \<open>
  The loose equality \<^verbatim>\<open>x == y\<close>, clause by clause in the order of the language
  definition: operands of one type compare strictly; null and undefined equal each
  other; a string meeting a number is converted to a number; a boolean is converted to
  a number; an object meeting a string or a number is converted to a primitive.
  The conversion of a string to a number (\<open>sn\<close>) and of an object to a primitive
  (\<open>tp\<close>) belong to the host and are parameters. A conversion of an object that
  yields an object again is the host's TypeError.
\<close>

function (sequential) loose_eq ::
  "(string \<Rightarrow> jsnum) \<Rightarrow> (nat \<Rightarrow> jsval) \<Rightarrow> jsval \<Rightarrow> jsval \<Rightarrow> error + bool" where
  "loose_eq sn tp JUndefined JUndefined = Inr True"
| "loose_eq sn tp JNull JNull = Inr True"
| "loose_eq sn tp (JBool a) (JBool b) = Inr (a = b)"
| "loose_eq sn tp (JNum a) (JNum b) = Inr (strict_num_eq a b)"
| "loose_eq sn tp (JStr a) (JStr b) = Inr (a = b)"
| "loose_eq sn tp (JObj a) (JObj b) = Inr (a = b)"
| "loose_eq sn tp JNull JUndefined = Inr True"
| "loose_eq sn tp JUndefined JNull = Inr True"
| "loose_eq sn tp (JNum a) (JStr b) = loose_eq sn tp (JNum a) (JNum (sn b))"
| "loose_eq sn tp (JStr a) (JNum b) = loose_eq sn tp (JNum (sn a)) (JNum b)"
| "loose_eq sn tp (JBool a) y = loose_eq sn tp (JNum (boolToNumber a)) y"
| "loose_eq sn tp x (JBool b) = loose_eq sn tp x (JNum (boolToNumber b))"
| "loose_eq sn tp (JStr a) (JObj r) =
     (case tp r of JObj _ \<Rightarrow> Inl TypeError | p \<Rightarrow> loose_eq sn tp (JStr a) p)"
| "loose_eq sn tp (JNum a) (JObj r) =
     (case tp r of JObj _ \<Rightarrow> Inl TypeError | p \<Rightarrow> loose_eq sn tp (JNum a) p)"
| "loose_eq sn tp (JObj r) (JStr b) =
     (case tp r of JObj _ \<Rightarrow> Inl TypeError | p \<Rightarrow> loose_eq sn tp p (JStr b))"
| "loose_eq sn tp (JObj r) (JNum b) =
     (case tp r of JObj _ \<Rightarrow> Inl TypeError | p \<Rightarrow> loose_eq sn tp p (JNum b))"
| "loose_eq sn tp x y = Inr False"
  by pat_completeness auto
termination
  by (relation "measure (\<lambda>(sn, tp, x, y). rank x + rank y)") (auto split: jsval.splits)

section \<open>The document\<close>

text \<open>
  An element of the host's document object model: a tag, attributes and child nodes.
  \<open>appendChild\<close> is the host's method of that name.
\<close>

datatype dom = Element string "(string \<times> string) list" "dom list"

fun appendChild :: "dom \<Rightarrow> dom \<Rightarrow> dom" where
  "appendChild (Element tag attrs kids) child = Element tag attrs (kids @ [child])"

text \<open>
  What a variable meant for an element holds at run time: an element, or any other
  value of the language. An element is an object and so truthy.
\<close>

datatype domval = DomElement dom | DomOther jsval

text \<open>
  Modelled from the spec: the block, which is not among the source files. The spec
  (section 6) requires of it an identifier, a shadow flag, field lookup by name,
  comment text, the collapsed, enabled and inputs-inline flags, and optional hooks that
  serialize and restore its structural state. \<open>hasMutator\<close> is \<^verbatim>\<open>block.mutator\<close>
  being set; \<open>hasMutationToDom\<close> and \<open>hasDomToMutation\<close> say whether the block
  defines the hook; \<open>mutation\<close> is what the serializing hook returns when called: an
  element holding the structural state, or any other value (null, or undefined for a
  hook that returns nothing).
\<close>

record block_state =
  block_id :: string
  isShadow :: bool
  hasMutator :: bool
  fieldRow :: "(string \<times> jsval) list"
  commentText :: jsval
  collapsed :: bool
  enabled :: bool
  inputsInline :: bool
  hasMutationToDom :: bool
  hasDomToMutation :: bool
  mutation :: domval

text \<open>A live block: its own state and the blocks attached below it.\<close>

datatype block = Block (state: block_state) (childBlocks: "block list")

section \<open>Events\<close>

text \<open>
  Modelled from the spec: the two base classes, \<^verbatim>\<open>Blockly.Events.Abstract\<close> and
  \<^verbatim>\<open>Blockly.Events.BlockBase\<close>, which are not among the source files. The spec
  (section 3) gives an event the identifier of its document, a group taken from the
  ambient state when the event is built, and \<open>recordUndo\<close>, a boolean that defaults to
  true; a block event adds the identifier of its block. The type tag is fixed by the
  class and is written by the serializers below.
\<close>

record abstract_event =
  workspaceId :: string
  group :: string
  recordUndo :: bool

record block_base = abstract_event +
  blockId :: string

text \<open>
  The change event. Its four descriptive fields hold any value of the language: a blank
  event leaves them undefined, and the constructor stores what it is given.
\<close>

record block_change = block_base +
  element :: jsval
  name :: jsval
  oldValue :: jsval
  newValue :: jsval

text \<open>
  The creation event. \<open>xml\<close> and \<open>ids\<close> are undefined (\<open>None\<close>) on a blank event.
\<close>

record block_create = block_base +
  xml :: "dom option"
  ids :: "string list option"

text \<open>
  The document: its top-level blocks with everything attached below them, the
  identifiers of the blocks whose mutator editor is open (view state, not part of the
  block tree), the diagnostic channel (each warning as the text and the value the source
  appends to it), the events fired so far, and the ambient group.
\<close>

record workspace =
  ws_id :: string
  rendered :: bool
  topBlocks :: "block list"
  openMutators :: "string set"
  console :: "(string \<times> jsval) list"
  fired :: "block_change list"
  ambientGroup :: string

definition console_warn :: "string \<Rightarrow> jsval \<Rightarrow> workspace \<Rightarrow> workspace" where
  "console_warn msg v ws = ws\<lparr>console := console ws @ [(msg, v)]\<rparr>"

text \<open>
  Modelled from the spec: \<^verbatim>\<open>Blockly.Events.fire\<close>, not among the source files. The
  spec (section 2) has a fired event pushed to the dispatch log.
\<close>

definition Events_fire :: "block_change \<Rightarrow> workspace \<Rightarrow> workspace" where
  "Events_fire ev ws = ws\<lparr>fired := fired ws @ [ev]\<rparr>"

subsection \<open>Collaborators of the document\<close>

text \<open>
  Modelled from the spec: \<^verbatim>\<open>workspace.getBlockById\<close>, not among the source files:
  the block with the given identifier, wherever it is attached, or nothing.
\<close>

fun findBlock :: "string \<Rightarrow> block list \<Rightarrow> block option" where
  "findBlock i [] = None"
| "findBlock i (Block st kids # rest) =
     (if block_id st = i then Some (Block st kids)
      else (case findBlock i kids of
              Some b \<Rightarrow> Some b
            | None \<Rightarrow> findBlock i rest))"

definition getBlockById :: "workspace \<Rightarrow> string \<Rightarrow> block option" where
  "getBlockById ws i = findBlock i (topBlocks ws)"

text \<open>
  Modelled from the spec: \<^verbatim>\<open>block.dispose(false)\<close>, not among the source files.
  Disposal removes the block from the document together with everything attached below
  it (the cascade that section 4.1 of the spec refers to).
\<close>

fun removeBlock :: "string \<Rightarrow> block list \<Rightarrow> block list" where
  "removeBlock i [] = []"
| "removeBlock i (Block st kids # rest) =
     (if block_id st = i then removeBlock i rest
      else Block st (removeBlock i kids) # removeBlock i rest)"

definition dispose :: "block \<Rightarrow> bool \<Rightarrow> workspace \<Rightarrow> workspace" where
  "dispose b healStack ws = ws\<lparr>topBlocks := removeBlock (block_id (state b)) (topBlocks ws)\<rparr>"

text \<open>The setters act on the block of the given identifier, where it sits in the tree.\<close>

fun updateBlock :: "string \<Rightarrow> (block_state \<Rightarrow> block_state) \<Rightarrow> block list \<Rightarrow> block list" where
  "updateBlock i f [] = []"
| "updateBlock i f (Block st kids # rest) =
     Block (if block_id st = i then f st else st) (updateBlock i f kids) # updateBlock i f rest"

definition onBlock :: "block \<Rightarrow> (block_state \<Rightarrow> block_state) \<Rightarrow> workspace \<Rightarrow> workspace" where
  "onBlock b f ws = ws\<lparr>topBlocks := updateBlock (block_id (state b)) f (topBlocks ws)\<rparr>"

text \<open>
  Modelled from the spec: the setters of a block and its field lookup, not among the
  source files. Each sets the one property the table of section 4.2 names.
  \<open>mutator_setVisible\<close> opens or closes the mutator editor of the block.
\<close>

definition mutator_setVisible :: "block \<Rightarrow> bool \<Rightarrow> workspace \<Rightarrow> workspace" where
  "mutator_setVisible b v ws =
     ws\<lparr>openMutators := (if v then insert (block_id (state b)) (openMutators ws)
                           else openMutators ws - {block_id (state b)})\<rparr>"

definition getField :: "block \<Rightarrow> jsval \<Rightarrow> string option" where
  "getField b nm =
     (case nm of
        JStr n \<Rightarrow> (if n \<in> fst ` set (fieldRow (state b)) then Some n else None)
      | _ \<Rightarrow> None)"

definition field_setValue :: "block \<Rightarrow> string \<Rightarrow> jsval \<Rightarrow> workspace \<Rightarrow> workspace" where
  "field_setValue b n v =
     onBlock b (\<lambda>st. st\<lparr>fieldRow := map (\<lambda>(k, w). if k = n then (k, v) else (k, w)) (fieldRow st)\<rparr>)"

definition setCommentText :: "block \<Rightarrow> jsval \<Rightarrow> workspace \<Rightarrow> workspace" where
  "setCommentText b v = onBlock b (\<lambda>st. st\<lparr>commentText := v\<rparr>)"

definition setCollapsed :: "block \<Rightarrow> bool \<Rightarrow> workspace \<Rightarrow> workspace" where
  "setCollapsed b v = onBlock b (\<lambda>st. st\<lparr>collapsed := v\<rparr>)"

definition setEnabled :: "block \<Rightarrow> bool \<Rightarrow> workspace \<Rightarrow> workspace" where
  "setEnabled b v = onBlock b (\<lambda>st. st\<lparr>enabled := v\<rparr>)"

definition setInputsInline :: "block \<Rightarrow> bool \<Rightarrow> workspace \<Rightarrow> workspace" where
  "setInputsInline b v = onBlock b (\<lambda>st. st\<lparr>inputsInline := v\<rparr>)"

definition mutationToDom :: "block \<Rightarrow> domval" where
  "mutationToDom b = mutation (state b)"

definition domToMutation :: "block \<Rightarrow> dom \<Rightarrow> workspace \<Rightarrow> workspace" where
  "domToMutation b d = onBlock b (\<lambda>st. st\<lparr>mutation := DomElement d\<rparr>)"

text \<open>
  Modelled from the spec: \<^verbatim>\<open>Blockly.Events.getDescendantIds\<close>, not among the source
  files: the identifier of the block and of every block below it, in pre-order.
\<close>

fun getDescendantIds :: "block \<Rightarrow> string list" where
  "getDescendantIds (Block st kids) = block_id st # concat (map getDescendantIds kids)"

text \<open>
  The subtree serializer (\<^verbatim>\<open>Blockly.Xml\<close>, \<^verbatim>\<open>Blockly.utils.xml\<close>) is an external
  collaborator whose code is not among the source files; the event classes take it as
  it is. Its operations are parameters of the model. \<open>domToText\<close> is handed whatever
  its caller holds, also the undefined \<open>xml\<close> of a blank event.
\<close>

record xml_api =
  createElement :: "string \<Rightarrow> dom"
  blockToDom :: "block \<Rightarrow> dom"
  blockToDomWithXY :: "block \<Rightarrow> dom"
  domToText :: "domval \<Rightarrow> string"
  textToDom :: "jsval \<Rightarrow> dom"
  domToWorkspace :: "dom \<Rightarrow> workspace \<Rightarrow> workspace"

subsection \<open>The base classes\<close>

text \<open>
  Modelled from the spec: constructor and (de)serialization of the base classes, not
  among the source files. A live event takes the identifiers of its block and of the
  block's document, a blank one has them empty; the serialized base record holds the
  type tag, the block identifier and the group, the group only when it is not empty
  (section 6 of the spec: \<^verbatim>\<open>{type: string, blockId?: string, group?: string}\<close>).
\<close>

definition BLOCK_CREATE :: string where
  "BLOCK_CREATE = ''create''"

definition BLOCK_CHANGE :: string where
  "BLOCK_CHANGE = ''change''"

definition BlockBase :: "workspace \<Rightarrow> block option \<Rightarrow> block_base" where
  "BlockBase ws opt_block =
     \<lparr>workspaceId = (case opt_block of None \<Rightarrow> [] | Some b \<Rightarrow> ws_id ws),
      group = ambientGroup ws,
      recordUndo = True,
      blockId = (case opt_block of None \<Rightarrow> [] | Some b \<Rightarrow> block_id (state b))\<rparr>"

record base_json =
  j_type :: string
  j_blockId :: string
  j_group :: "string option"

definition j_groupOf :: "string \<Rightarrow> string option" where
  "j_groupOf g = (if g \<noteq> [] then Some g else None)"

definition groupFrom :: "string option \<Rightarrow> string" where
  "groupFrom g = (case g of None \<Rightarrow> [] | Some s \<Rightarrow> s)"

subsection \<open>Blockly.Events.BlockChange\<close>

text \<open>
  The serialized change event. A key the serializer may leave out is an option:
  \<open>None\<close> is the key being absent, and reading an absent key gives undefined.
\<close>

record change_json = base_json +
  j_element :: jsval
  j_name :: "jsval option"
  j_oldValue :: jsval
  j_newValue :: jsval

text \<open>
  The constructor. \<^verbatim>\<open>typeof opt_x == 'undefined' ? '' : opt_x\<close> for each of the four
  parameters; a blank event (no block) returns before them.
\<close>

definition BlockChange ::
  "workspace \<Rightarrow> block option \<Rightarrow> jsval \<Rightarrow> jsval \<Rightarrow> jsval \<Rightarrow> jsval \<Rightarrow> block_change" where
  "BlockChange ws opt_block opt_element opt_name opt_oldValue opt_newValue =
     (let base = BlockBase ws opt_block in
      case opt_block of
        None \<Rightarrow>
          \<lparr>workspaceId = workspaceId base, group = group base,
           recordUndo = recordUndo base, blockId = blockId base,
           element = JUndefined, name = JUndefined,
           oldValue = JUndefined, newValue = JUndefined\<rparr>
      | Some b \<Rightarrow>
          \<lparr>workspaceId = workspaceId base, group = group base,
           recordUndo = recordUndo base, blockId = blockId base,
           element = (if opt_element = JUndefined then JStr [] else opt_element),
           name = (if opt_name = JUndefined then JStr [] else opt_name),
           oldValue = (if opt_oldValue = JUndefined then JStr [] else opt_oldValue),
           newValue = (if opt_newValue = JUndefined then JStr [] else opt_newValue)\<rparr>)"

definition BlockChange_toJson :: "block_change \<Rightarrow> change_json" where
  "BlockChange_toJson e =
     \<lparr>j_type = BLOCK_CHANGE, j_blockId = blockId e, j_group = j_groupOf (group e),
      j_element = element e,
      j_name = (if truthy (name e) then Some (name e) else None),
      j_oldValue = oldValue e,
      j_newValue = newValue e\<rparr>"

definition BlockChange_fromJson :: "block_change \<Rightarrow> change_json \<Rightarrow> block_change" where
  "BlockChange_fromJson e json =
     e\<lparr>blockId := j_blockId json, group := groupFrom (j_group json),
       element := j_element json,
       name := (case j_name json of None \<Rightarrow> JUndefined | Some v \<Rightarrow> v),
       oldValue := j_oldValue json,
       newValue := j_newValue json\<rparr>"

text \<open>\<^verbatim>\<open>return this.oldValue == this.newValue;\<close>\<close>

definition BlockChange_isNull ::
  "(string \<Rightarrow> jsnum) \<Rightarrow> (nat \<Rightarrow> jsval) \<Rightarrow> block_change \<Rightarrow> error + bool" where
  "BlockChange_isNull sn tp e = loose_eq sn tp (oldValue e) (newValue e)"

text \<open>
  \<^verbatim>\<open>oldMutationDom && Blockly.Xml.domToText(oldMutationDom)\<close>: the left operand
  itself when it is falsy, else the text of it.
\<close>

fun and_domToText :: "xml_api \<Rightarrow> domval \<Rightarrow> jsval" where
  "and_domToText X (DomElement d) = JStr (domToText X (DomElement d))"
| "and_domToText X (DomOther v) =
     (if truthy v then JStr (domToText X (DomOther v)) else v)"

text \<open>
  Running a change event. The document is the one \<^verbatim>\<open>getEventWorkspace_\<close> found.
  The \<^verbatim>\<open>switch\<close> compares \<^verbatim>\<open>this.element\<close> strictly with each string, in the
  order of the source. The secondary event of the mutation case is built from the
  block the lookup returned: the constructor reads its identifier only, which no
  setter changes.
\<close>

definition BlockChange_run :: "xml_api \<Rightarrow> block_change \<Rightarrow> bool \<Rightarrow> workspace \<Rightarrow> workspace" where
  "BlockChange_run X e forward workspace =
     (case getBlockById workspace (blockId e) of
        None \<Rightarrow> console_warn ''Can't change non-existent block: '' (JStr (blockId e)) workspace
      | Some block \<Rightarrow>
          (let ws1 = (if hasMutator (state block)
                      then mutator_setVisible block False workspace else workspace);
               value = (if forward then newValue e else oldValue e)
           in if element e = JStr ''field'' then
                (case getField block (name e) of
                   Some field \<Rightarrow> field_setValue block field value ws1
                 | None \<Rightarrow> console_warn ''Can't set non-existent field: '' (name e) ws1)
              else if element e = JStr ''comment'' then
                setCommentText block (js_or value JNull) ws1
              else if element e = JStr ''collapsed'' then
                setCollapsed block (truthy value) ws1
              else if element e = JStr ''disabled'' then
                setEnabled block (\<not> truthy value) ws1
              else if element e = JStr ''inline'' then
                setInputsInline block (truthy value) ws1
              else if element e = JStr ''mutation'' then
                (let oldMutation =
                       (if hasMutationToDom (state block)
                        then (let oldMutationDom = mutationToDom block
                              in and_domToText X oldMutationDom)
                        else JStr []);
                     ws2 = (if hasDomToMutation (state block)
                            then domToMutation block
                                   (textToDom X (js_or value (JStr ''<mutation/>''))) ws1
                            else ws1)
                 in Events_fire
                      (BlockChange ws2 (Some block) (JStr ''mutation'') JNull oldMutation value)
                      ws2)
              else console_warn ''Unknown change type: '' (element e) ws1))"

subsection \<open>Blockly.Events.BlockCreate\<close>

record create_json = base_json +
  j_xml :: string
  j_ids :: "string list option"
  j_recordUndo :: "bool option"

definition BlockCreate :: "xml_api \<Rightarrow> workspace \<Rightarrow> block option \<Rightarrow> block_create" where
  "BlockCreate X ws opt_block =
     (let base = BlockBase ws opt_block in
      case opt_block of
        None \<Rightarrow>
          \<lparr>workspaceId = workspaceId base, group = group base,
           recordUndo = recordUndo base, blockId = blockId base,
           xml = None, ids = None\<rparr>
      | Some b \<Rightarrow>
          \<lparr>workspaceId = workspaceId base, group = group base,
           recordUndo = (if isShadow (state b) then False else recordUndo base),
           blockId = blockId base,
           xml = Some (if rendered ws then blockToDomWithXY X b else blockToDom X b),
           ids = Some (getDescendantIds b)\<rparr>)"

definition BlockCreate_toJson :: "xml_api \<Rightarrow> block_create \<Rightarrow> create_json" where
  "BlockCreate_toJson X e =
     \<lparr>j_type = BLOCK_CREATE, j_blockId = blockId e, j_group = j_groupOf (group e),
      j_xml = domToText X (case xml e of None \<Rightarrow> DomOther JUndefined | Some x \<Rightarrow> DomElement x),
      j_ids = ids e,
      j_recordUndo = (if \<not> recordUndo e then Some (recordUndo e) else None)\<rparr>"

definition BlockCreate_fromJson :: "xml_api \<Rightarrow> block_create \<Rightarrow> create_json \<Rightarrow> block_create" where
  "BlockCreate_fromJson X e json =
     e\<lparr>blockId := j_blockId json, group := groupFrom (j_group json),
       xml := Some (textToDom X (JStr (j_xml json))),
       ids := j_ids json,
       recordUndo := (case j_recordUndo json of
                        Some v \<Rightarrow> v
                      | None \<Rightarrow> recordUndo e)\<rparr>"

text \<open>
  The body of the loop of the backward run, for one identifier: dispose the block when
  the document has it, complain when the missing one is the root, else do nothing.
  \<^verbatim>\<open>id == this.blockId\<close> compares two strings, for which the loose equality is
  equality.
\<close>

definition uncreate_body :: "string \<Rightarrow> string \<Rightarrow> workspace \<Rightarrow> workspace" where
  "uncreate_body rootId i workspace =
     (case getBlockById workspace i of
        Some block \<Rightarrow> dispose block False workspace
      | None \<Rightarrow>
          if i = rootId
          then console_warn ''Can't uncreate non-existent block: '' (JStr i) workspace
          else workspace)"

text \<open>
  The loop itself, \<^verbatim>\<open>for (var i = 0, id; (id = this.ids[i]); i++)\<close>: it ends when
  the entry read is falsy, which for an array of strings is the empty string or the
  undefined read past the last entry.
\<close>

fun uncreate :: "string \<Rightarrow> string list \<Rightarrow> workspace \<Rightarrow> workspace" where
  "uncreate rootId [] workspace = workspace"
| "uncreate rootId (i # rest) workspace =
     (if i = [] then workspace
      else uncreate rootId rest (uncreate_body rootId i workspace))"

text \<open>
  Running a creation event. Reading an entry of \<open>ids\<close>, or appending \<open>xml\<close>, on an
  event that was never populated is a TypeError of the host.
\<close>

definition BlockCreate_run ::
  "xml_api \<Rightarrow> block_create \<Rightarrow> bool \<Rightarrow> workspace \<Rightarrow> error + workspace" where
  "BlockCreate_run X e forward workspace =
     (if forward then
        (case xml e of
           None \<Rightarrow> Inl TypeError
         | Some x \<Rightarrow> Inr (domToWorkspace X (appendChild (createElement X ''xml'') x) workspace))
      else
        (case ids e of
           None \<Rightarrow> Inl TypeError
         | Some l \<Rightarrow> Inr (uncreate (blockId e) l workspace)))"

section \<open>Notions used by the statements\<close>

text \<open>The identifiers of all blocks of a forest, each block before the blocks below it.\<close>

definition allIds :: "block list \<Rightarrow> string list" where
  "allIds f = concat (map getDescendantIds f)"

subsection \<open>A concrete document and concrete events\<close>

text \<open>
  A host whose string-to-number conversion knows the empty string and \<open>5\<close>, and whose
  objects convert to the text of a plain object; a serializer that flattens every
  snapshot to the same text; a document of one top-level block \<open>b1\<close> (one field, a
  mutator editor that is open, both structural hooks, the serializing hook returning null)
  with a shadow block \<open>b2\<close> below it that has neither hook.
\<close>

definition sampleToNumber :: "string \<Rightarrow> jsnum" where
  "sampleToNumber s = (if s = [] then Finite 0 else if s = ''5'' then Finite 5 else NaN)"

definition sampleToPrimitive :: "nat \<Rightarrow> jsval" where
  "sampleToPrimitive r = JStr ''[object Object]''"

definition sampleX :: xml_api where
  "sampleX =
     \<lparr>createElement = (\<lambda>tag. Element tag [] []),
      blockToDom = (\<lambda>b. Element ''block'' [(''id'', block_id (state b))] []),
      blockToDomWithXY =
        (\<lambda>b. Element ''block'' [(''id'', block_id (state b)), (''x'', ''0''), (''y'', ''0'')] []),
      domToText = (\<lambda>d. ''<xml/>''),
      textToDom = (\<lambda>v. Element ''mutation'' [] []),
      domToWorkspace = (\<lambda>d ws. ws)\<rparr>"

definition sampleChild :: block where
  "sampleChild =
     Block \<lparr>block_id = ''b2'', isShadow = True, hasMutator = False, fieldRow = [],
            commentText = JNull, collapsed = False, enabled = True, inputsInline = False,
            hasMutationToDom = False, hasDomToMutation = False,
            mutation = DomOther JUndefined\<rparr> []"

definition sampleBlock :: block where
  "sampleBlock =
     Block \<lparr>block_id = ''b1'', isShadow = False, hasMutator = True,
            fieldRow = [(''NUM'', JNum (Finite 5))],
            commentText = JNull, collapsed = False, enabled = True, inputsInline = False,
            hasMutationToDom = True, hasDomToMutation = True,
            mutation = DomOther JNull\<rparr>
       [sampleChild]"

definition sampleWorkspace :: workspace where
  "sampleWorkspace =
     \<lparr>ws_id = ''w'', rendered = False, topBlocks = [sampleBlock],
      openMutators = {''b1''}, console = [], fired = [], ambientGroup = []\<rparr>"

text \<open>The sample document with another return value of the serializing hook of \<open>b1\<close>.\<close>

definition sampleWorkspaceWith :: "domval \<Rightarrow> workspace" where
  "sampleWorkspaceWith m =
     sampleWorkspace\<lparr>topBlocks := [Block ((state sampleBlock)\<lparr>mutation := m\<rparr>) [sampleChild]]\<rparr>"

text \<open>The creation event of \<open>b1\<close>, and a creation event read from a foreign record whose
  \<open>ids\<close> array starts with an empty string.\<close>

definition sampleCreate :: block_create where
  "sampleCreate = BlockCreate sampleX sampleWorkspace (Some sampleBlock)"

definition sampleForeignJson :: create_json where
  "sampleForeignJson =
     \<lparr>j_type = ''create'', j_blockId = ''b1'', j_group = None,
      j_xml = ''<xml/>'', j_ids = Some [[], ''b1''], j_recordUndo = None\<rparr>"

definition sampleForeignCreate :: block_create where
  "sampleForeignCreate =
     BlockCreate_fromJson sampleX (BlockCreate sampleX sampleWorkspace None) sampleForeignJson"

text \<open>Change events on the sample document.\<close>

definition sampleMutation :: block_change where
  "sampleMutation =
     BlockChange sampleWorkspace (Some sampleBlock)
       (JStr ''mutation'') JNull (JStr []) (JStr ''<mutation/>'')"

definition sampleChildMutation :: block_change where
  "sampleChildMutation =
     BlockChange sampleWorkspace (Some sampleChild)
       (JStr ''mutation'') JNull (JStr []) (JStr ''<mutation/>'')"

definition sampleFieldChange :: block_change where
  "sampleFieldChange =
     BlockChange sampleWorkspace (Some sampleBlock)
       (JStr ''field'') (JStr ''TEXT'') (JStr ''a'') (JStr ''b'')"

definition sampleCollapse :: block_change where
  "sampleCollapse =
     BlockChange sampleWorkspace (Some sampleBlock)
       (JStr ''collapsed'') JUndefined (JBool False) (JBool True)"

lemmas sample_defs =
  sampleToNumber_def sampleToPrimitive_def sampleX_def sampleChild_def sampleBlock_def
  sampleWorkspace_def sampleWorkspaceWith_def sampleCreate_def sampleForeignJson_def sampleForeignCreate_def
  sampleMutation_def sampleChildMutation_def sampleFieldChange_def sampleCollapse_def

section \<open>Auxiliary facts\<close>

subsection \<open>Loose equality\<close>

lemma loose_eq_refl: "x \<noteq> JNum NaN \<Longrightarrow> loose_eq sn tp x x = Inr True"
proof (cases x)
  case (JNum n)
  assume "x \<noteq> JNum NaN"
  with JNum show ?thesis by (cases n) simp_all
qed simp_all

subsection \<open>Lookup and disposal in the block tree\<close>

lemma allIds_Nil [simp]: "allIds [] = []"
  by (simp add: allIds_def)

lemma allIds_Cons [simp]: "allIds (Block st kids # rest) = block_id st # allIds kids @ allIds rest"
  by (simp add: allIds_def)

lemma findBlock_None_iff: "findBlock i f = None \<longleftrightarrow> i \<notin> set (allIds f)"
  by (induction i f rule: findBlock.induct) (auto split: option.splits)

lemma findBlock_Some_id: "findBlock i f = Some b \<Longrightarrow> block_id (state b) = i"
  by (induction i f rule: findBlock.induct) (auto split: option.splits if_splits)

lemma removeBlock_ids: "set (allIds (removeBlock i f)) \<subseteq> set (allIds f) - {i}"
  by (induction i f rule: removeBlock.induct) auto

subsection \<open>The loop of the backward run\<close>

lemma uncreate_Cons: "i \<noteq> [] \<Longrightarrow> uncreate r (i # rest) ws = uncreate r rest (uncreate_body r i ws)"
  by simp

lemma step_found: "getBlockById ws i = Some b \<Longrightarrow> uncreate_body r i ws = dispose b False ws"
  by (simp add: uncreate_body_def)

lemma step_missing:
  "getBlockById ws i = None \<Longrightarrow>
   uncreate_body r i ws =
     (if i = r then console_warn ''Can't uncreate non-existent block: '' (JStr i) ws else ws)"
  by (simp add: uncreate_body_def)

lemma step_ids: "set (allIds (topBlocks (uncreate_body r i ws))) \<subseteq> set (allIds (topBlocks ws)) - {i}"
proof (cases "getBlockById ws i")
  case None
  then have "i \<notin> set (allIds (topBlocks ws))"
    by (simp add: getBlockById_def findBlock_None_iff)
  moreover from None have "topBlocks (uncreate_body r i ws) = topBlocks ws"
    by (simp add: step_missing console_warn_def)
  ultimately show ?thesis by auto
next
  case (Some b)
  then have "block_id (state b) = i"
    by (simp add: getBlockById_def findBlock_Some_id)
  with Some removeBlock_ids [of i "topBlocks ws"] show ?thesis
    by (simp add: step_found dispose_def)
qed

lemma step_console:
  "console (uncreate_body r i ws) =
     (if getBlockById ws i = None \<and> i = r
      then console ws @ [(''Can't uncreate non-existent block: '', JStr r)] else console ws)"
  by (cases "getBlockById ws i") (simp_all add: step_found step_missing console_warn_def dispose_def)

lemma step_rest: "fired (uncreate_body r i ws) = fired ws \<and> openMutators (uncreate_body r i ws) = openMutators ws"
  by (cases "getBlockById ws i") (simp_all add: step_found step_missing dispose_def console_warn_def)

lemma uncreate_ids: "set (allIds (topBlocks (uncreate r l ws))) \<subseteq> set (allIds (topBlocks ws))"
proof (induction l arbitrary: ws)
  case Nil
  show ?case by simp
next
  case (Cons i rest)
  show ?case
  proof (cases "i = []")
    case True
    then show ?thesis by simp
  next
    case False
    from Cons [of "uncreate_body r i ws"] step_ids [of r i ws] False
    show ?thesis by (auto simp add: uncreate_Cons simp del: uncreate.simps)
  qed
qed

lemma uncreate_gone:
  "i \<in> set (takeWhile (\<lambda>i. i \<noteq> []) l) \<Longrightarrow> i \<notin> set (allIds (topBlocks (uncreate r l ws)))"
proof (induction l arbitrary: ws)
  case Nil
  then show ?case by simp
next
  case (Cons j rest)
  then have j: "j \<noteq> []" by (auto split: if_splits)
  show ?case
  proof (cases "i = j")
    case True
    with step_ids [of r j ws] uncreate_ids [of r rest "uncreate_body r j ws"] j
    show ?thesis by (auto simp add: uncreate_Cons simp del: uncreate.simps)
  next
    case False
    with Cons.prems j have "i \<in> set (takeWhile (\<lambda>i. i \<noteq> []) rest)" by simp
    from Cons.IH [OF this, of "uncreate_body r j ws"] j
    show ?thesis by (simp add: uncreate_Cons del: uncreate.simps)
  qed
qed

lemma uncreate_untouched: "fired (uncreate r l ws) = fired ws \<and> openMutators (uncreate r l ws) = openMutators ws"
proof (induction l arbitrary: ws)
  case Nil
  show ?case by simp
next
  case (Cons i rest)
  show ?case
  proof (cases "i = []")
    case True
    then show ?thesis by simp
  next
    case False
    with Cons [of "uncreate_body r i ws"] step_rest [of r i ws]
    show ?thesis by (simp add: uncreate_Cons del: uncreate.simps)
  qed
qed

lemma uncreate_console:
  "\<exists>k\<le>count_list (takeWhile (\<lambda>i. i \<noteq> []) l) r.
     console (uncreate r l ws) = console ws @ replicate k (''Can't uncreate non-existent block: '', JStr r)"
proof (induction l arbitrary: ws)
  case Nil
  show ?case by simp
next
  case (Cons i rest)
  show ?case
  proof (cases "i = []")
    case True
    then show ?thesis by simp
  next
    case False
    from Cons [of "uncreate_body r i ws"] obtain k where
      k: "k \<le> count_list (takeWhile (\<lambda>i. i \<noteq> []) rest) r"
      and c: "console (uncreate r rest (uncreate_body r i ws)) =
          console (uncreate_body r i ws) @ replicate k (''Can't uncreate non-existent block: '', JStr r)"
      by blast
    have u: "uncreate r (i # rest) ws = uncreate r rest (uncreate_body r i ws)"
      using False by (rule uncreate_Cons)
    show ?thesis
    proof (cases "getBlockById ws i = None \<and> i = r")
      case True
      then have "console (uncreate_body r i ws) =
          console ws @ [(''Can't uncreate non-existent block: '', JStr r)]"
        by (auto simp add: step_console)
      with c u have "console (uncreate r (i # rest) ws) =
          console ws @ replicate (Suc k) (''Can't uncreate non-existent block: '', JStr r)"
        by (simp del: uncreate.simps)
      moreover from k True False have "Suc k \<le> count_list (takeWhile (\<lambda>i. i \<noteq> []) (i # rest)) r"
        by simp
      ultimately show ?thesis by blast
    next
      case False2: False
      then have "console (uncreate_body r i ws) = console ws"
        by (auto simp add: step_console)
      with c u have "console (uncreate r (i # rest) ws) =
          console ws @ replicate k (''Can't uncreate non-existent block: '', JStr r)"
        by (simp del: uncreate.simps)
      moreover from k False have "k \<le> count_list (takeWhile (\<lambda>i. i \<noteq> []) (i # rest)) r"
        by simp
      ultimately show ?thesis by blast
    qed
  qed
qed

lemma uncreate_console_missing:
  "r \<notin> set (allIds (topBlocks ws)) \<Longrightarrow>
     console (uncreate r l ws) = console ws @
       replicate (count_list (takeWhile (\<lambda>i. i \<noteq> []) l) r) (''Can't uncreate non-existent block: '', JStr r)"
proof (induction l arbitrary: ws)
  case Nil
  show ?case by simp
next
  case (Cons i rest)
  show ?case
  proof (cases "i = []")
    case True
    then show ?thesis by simp
  next
    case False
    from Cons.prems step_ids [of r i ws]
    have "r \<notin> set (allIds (topBlocks (uncreate_body r i ws)))" by auto
    from Cons.IH [OF this] have c: "console (uncreate r rest (uncreate_body r i ws)) =
      console (uncreate_body r i ws) @
      replicate (count_list (takeWhile (\<lambda>i. i \<noteq> []) rest) r) (''Can't uncreate non-existent block: '', JStr r)" .
    have u: "uncreate r (i # rest) ws = uncreate r rest (uncreate_body r i ws)"
      using False by (rule uncreate_Cons)
    show ?thesis
    proof (cases "i = r")
      case True
      with Cons.prems have "getBlockById ws i = None"
        by (simp add: getBlockById_def findBlock_None_iff)
      with True have s: "console (uncreate_body r i ws) = console ws @ [(''Can't uncreate non-existent block: '', JStr r)]"
        by (auto simp add: step_console)
      from True False have "count_list (takeWhile (\<lambda>i. i \<noteq> []) (i # rest)) r = Suc (count_list (takeWhile (\<lambda>i. i \<noteq> []) rest) r)"
        by simp
      with c u s show ?thesis
        by (simp del: uncreate.simps)
    next
      case False3: False
      then have s: "console (uncreate_body r i ws) = console ws"
        by (auto simp add: step_console)
      from False3 False have "count_list (takeWhile (\<lambda>i. i \<noteq> []) (i # rest)) r = count_list (takeWhile (\<lambda>i. i \<noteq> []) rest) r"
        by simp
      with c u s show ?thesis by (simp del: uncreate.simps)
    qed
  qed
qed

lemma uncreate_stops: "uncreate r (pre @ [] # post) ws = uncreate r pre ws"
  by (induction pre arbitrary: ws) simp_all

lemma uncreate_takeWhile: "uncreate r l ws = uncreate r (takeWhile (\<lambda>i. i \<noteq> []) l) ws"
  by (induction l arbitrary: ws) simp_all

subsection \<open>The mutation case of a change event\<close>

lemma mutation_fired:
  assumes "getBlockById ws (blockId e) = Some b" and "element e = JStr ''mutation''"
  shows "fired (BlockChange_run X e forward ws) = fired ws @
     [BlockChange ws (Some b) (JStr ''mutation'') JNull
        (if hasMutationToDom (state b) then and_domToText X (mutationToDom b) else JStr [])
        (if forward then newValue e else oldValue e)]"
  using assms
  by (simp add: BlockChange_run_def Let_def Events_fire_def BlockChange_def BlockBase_def
      domToMutation_def onBlock_def mutator_setVisible_def)

lemma mutation_no_hooks:
  assumes "getBlockById ws (blockId e) = Some b" and "element e = JStr ''mutation''"
    and "\<not> hasMutationToDom (state b)" and "\<not> hasDomToMutation (state b)"
  shows "topBlocks (BlockChange_run X e forward ws) = topBlocks ws"
  using assms
  by (simp add: BlockChange_run_def Let_def Events_fire_def mutator_setVisible_def)

section \<open>The claims\<close>

text \<open>
  Claim C1. \<open>isNull\<close> is the loose equality of \<open>oldValue\<close> and \<open>newValue\<close>. A change
  event built from a live block with the same value \<open>x\<close> as old and new value is null for
  every \<open>x\<close> other than NaN: booleans, strings (numeric or empty), null, object
  references, and the undefined that the constructor replaces by the empty string.
\<close>

theorem isNull_same_value:
  "BlockChange_isNull sn tp e = loose_eq sn tp (oldValue e) (newValue e)
   \<and> (x \<noteq> JNum NaN \<longrightarrow>
        BlockChange_isNull sn tp (BlockChange ws (Some b) el nm x x) = Inr True)"
  by (simp add: BlockChange_isNull_def BlockChange_def Let_def loose_eq_refl)

theorem isNull_same_value_witness:
  "JStr ''5'' \<noteq> JNum NaN \<and> JBool False \<noteq> JNum NaN \<and> JStr [] \<noteq> JNum NaN
   \<and> BlockChange_isNull sampleToNumber sampleToPrimitive
        (BlockChange sampleWorkspace (Some sampleBlock)
           (JStr ''field'') (JStr ''NUM'') (JStr ''5'') (JStr ''5'')) = Inr True
   \<and> BlockChange_isNull sampleToNumber sampleToPrimitive
        (BlockChange sampleWorkspace (Some sampleBlock)
           (JStr ''collapsed'') JUndefined (JBool False) (JBool False)) = Inr True
   \<and> BlockChange_isNull sampleToNumber sampleToPrimitive
        (BlockChange sampleWorkspace (Some sampleBlock)
           (JStr ''comment'') JUndefined (JStr []) (JStr [])) = Inr True"
  using isNull_same_value [where sn = sampleToNumber and tp = sampleToPrimitive
      and e = sampleCollapse and x = "JStr ''5''" and ws = sampleWorkspace
      and b = sampleBlock and el = "JStr ''field''" and nm = "JStr ''NUM''"]
    isNull_same_value [where sn = sampleToNumber and tp = sampleToPrimitive
      and e = sampleCollapse and x = "JBool False" and ws = sampleWorkspace
      and b = sampleBlock and el = "JStr ''collapsed''" and nm = JUndefined]
    isNull_same_value [where sn = sampleToNumber and tp = sampleToPrimitive
      and e = sampleCollapse and x = "JStr []" and ws = sampleWorkspace
      and b = sampleBlock and el = "JStr ''comment''" and nm = JUndefined]
  by simp

text \<open>With NaN as both values the event is not null: NaN is not loosely equal to itself.\<close>

theorem isNull_NaN_counterexample:
  "BlockChange_isNull sampleToNumber sampleToPrimitive
     (BlockChange sampleWorkspace (Some sampleBlock)
        (JStr ''field'') (JStr ''NUM'') (JNum NaN) (JNum NaN)) = Inr False"
  by (simp add: BlockChange_isNull_def BlockChange_def Let_def)

text \<open>
  Claim C2. The backward run of a creation event that has its \<open>ids\<close> handles them in
  order up to the first empty one. Handling a non-empty identifier disposes the block
  when the document has it, logs a warning when it is missing and is the root, does
  nothing when it is missing and is not the root, and goes on with the rest. The run
  returns a document; in it no identifier of the handled prefix is left, the diagnostic
  channel has grown by warnings about the root only (at most one per occurrence of the
  root in the prefix, exactly one per occurrence when the root was missing from the
  start), and no event was fired.
\<close>

theorem uncreate_handles_prefix:
  "(i \<noteq> [] \<longrightarrow>
      BlockCreate_run X (e\<lparr>ids := Some (i # rest)\<rparr>) False ws =
      BlockCreate_run X (e\<lparr>ids := Some rest\<rparr>) False
        (case getBlockById ws i of
           Some block \<Rightarrow> dispose block False ws
         | None \<Rightarrow> if i = blockId e
                    then console_warn ''Can't uncreate non-existent block: '' (JStr i) ws
                    else ws))
   \<and> (ids e = Some l \<longrightarrow>
        (\<exists>ws'. BlockCreate_run X e False ws = Inr ws'
           \<and> (\<forall>i \<in> set (takeWhile (\<lambda>i. i \<noteq> []) l). getBlockById ws' i = None)
           \<and> (\<exists>k \<le> count_list (takeWhile (\<lambda>i. i \<noteq> []) l) (blockId e).
                 console ws' = console ws @
                   replicate k (''Can't uncreate non-existent block: '', JStr (blockId e)))
           \<and> (getBlockById ws (blockId e) = None \<longrightarrow>
                 console ws' = console ws @
                   replicate (count_list (takeWhile (\<lambda>i. i \<noteq> []) l) (blockId e))
                     (''Can't uncreate non-existent block: '', JStr (blockId e)))
           \<and> fired ws' = fired ws))"
proof (intro conjI impI)
  assume "i \<noteq> []"
  then show "BlockCreate_run X (e\<lparr>ids := Some (i # rest)\<rparr>) False ws =
      BlockCreate_run X (e\<lparr>ids := Some rest\<rparr>) False
        (case getBlockById ws i of
           Some block \<Rightarrow> dispose block False ws
         | None \<Rightarrow> if i = blockId e
                    then console_warn ''Can't uncreate non-existent block: '' (JStr i) ws
                    else ws)"
    by (simp add: BlockCreate_run_def uncreate_body_def)
next
  assume l: "ids e = Some l"
  let ?ws = "uncreate (blockId e) l ws"
  have a: "BlockCreate_run X e False ws = Inr ?ws"
    using l by (simp add: BlockCreate_run_def)
  have b: "\<forall>i \<in> set (takeWhile (\<lambda>i. i \<noteq> []) l). getBlockById ?ws i = None"
    by (simp add: getBlockById_def findBlock_None_iff uncreate_gone)
  note c = uncreate_console [of l "blockId e" ws]
  have d: "getBlockById ws (blockId e) = None \<longrightarrow>
                 console ?ws = console ws @
                   replicate (count_list (takeWhile (\<lambda>i. i \<noteq> []) l) (blockId e))
                     (''Can't uncreate non-existent block: '', JStr (blockId e))"
    by (simp add: getBlockById_def findBlock_None_iff uncreate_console_missing)
  have f: "fired ?ws = fired ws"
    by (simp add: uncreate_untouched)
  show "\<exists>ws'. BlockCreate_run X e False ws = Inr ws'
           \<and> (\<forall>i \<in> set (takeWhile (\<lambda>i. i \<noteq> []) l). getBlockById ws' i = None)
           \<and> (\<exists>k \<le> count_list (takeWhile (\<lambda>i. i \<noteq> []) l) (blockId e).
                 console ws' = console ws @
                   replicate k (''Can't uncreate non-existent block: '', JStr (blockId e)))
           \<and> (getBlockById ws (blockId e) = None \<longrightarrow>
                 console ws' = console ws @
                   replicate (count_list (takeWhile (\<lambda>i. i \<noteq> []) l) (blockId e))
                     (''Can't uncreate non-existent block: '', JStr (blockId e)))
           \<and> fired ws' = fired ws"
    by (rule exI [of _ ?ws]) (intro conjI a b c d f)
qed

text \<open>
  On the sample document the creation event of \<open>b1\<close> lists \<open>b1\<close> and \<open>b2\<close>; its
  backward run empties the document and logs nothing.
\<close>

theorem uncreate_handles_prefix_witness:
  "''b1'' \<noteq> [] \<and> ids sampleCreate = Some [''b1'', ''b2'']
   \<and> BlockCreate_run sampleX sampleCreate False sampleWorkspace =
       Inr (sampleWorkspace\<lparr>topBlocks := []\<rparr>)
   \<and> getBlockById (sampleWorkspace\<lparr>topBlocks := []\<rparr>) ''b1'' = None
   \<and> getBlockById (sampleWorkspace\<lparr>topBlocks := []\<rparr>) ''b2'' = None"
  using uncreate_handles_prefix [where i = "''b1''" and X = sampleX and e = sampleCreate
      and rest = "[''b2'']" and ws = sampleWorkspace and l = "[''b1'', ''b2'']"]
  by (simp add: sample_defs BlockCreate_def BlockBase_def BlockCreate_run_def Let_def
      uncreate_body_def getBlockById_def dispose_def console_warn_def)

text \<open>
  The claim as it was worded, for every identifier of the sequence, fails on an event
  read from a record whose \<open>ids\<close> are the empty string and then \<open>b1\<close>: the document has
  \<open>b1\<close>, and the backward run leaves the document as it was.
\<close>

theorem uncreate_after_falsy_counterexample:
  "ids sampleForeignCreate = Some [[], ''b1'']
   \<and> getBlockById sampleWorkspace ''b1'' = Some sampleBlock
   \<and> BlockCreate_run sampleX sampleForeignCreate False sampleWorkspace = Inr sampleWorkspace"
  by (simp add: sample_defs BlockCreate_fromJson_def BlockCreate_def BlockBase_def
      BlockCreate_run_def Let_def getBlockById_def)

text \<open>
  Claim C3. In either direction, the run of a change event whose block the document does
  not have appends one warning to the diagnostic channel and changes nothing else. When
  the block is there, the element is \<open>field\<close> and the block has no field of that name,
  the run appends one warning, leaves the block tree and the fired events as they were,
  and has closed the mutator editor of the block if the block has one.
\<close>

theorem change_missing_target:
  "(getBlockById ws (blockId e) = None \<longrightarrow>
      BlockChange_run X e forward ws =
        ws\<lparr>console := console ws @ [(''Can't change non-existent block: '', JStr (blockId e))]\<rparr>)
   \<and> (getBlockById ws (blockId e) = Some b \<and> element e = JStr ''field''
        \<and> getField b (name e) = None \<longrightarrow>
        topBlocks (BlockChange_run X e forward ws) = topBlocks ws
      \<and> fired (BlockChange_run X e forward ws) = fired ws
      \<and> console (BlockChange_run X e forward ws) =
          console ws @ [(''Can't set non-existent field: '', name e)]
      \<and> openMutators (BlockChange_run X e forward ws) =
          (if hasMutator (state b) then openMutators ws - {block_id (state b)}
           else openMutators ws))"
  by (simp add: BlockChange_run_def console_warn_def Let_def mutator_setVisible_def)

theorem change_missing_target_witness:
  "getBlockById sampleWorkspace (blockId (sampleMutation\<lparr>blockId := ''gone''\<rparr>)) = None
   \<and> BlockChange_run sampleX (sampleMutation\<lparr>blockId := ''gone''\<rparr>) False sampleWorkspace =
       sampleWorkspace\<lparr>console := [(''Can't change non-existent block: '', JStr ''gone'')]\<rparr>
   \<and> getBlockById sampleWorkspace (blockId sampleFieldChange) = Some sampleBlock
   \<and> element sampleFieldChange = JStr ''field''
   \<and> getField sampleBlock (name sampleFieldChange) = None
   \<and> topBlocks (BlockChange_run sampleX sampleFieldChange True sampleWorkspace) = [sampleBlock]
   \<and> fired (BlockChange_run sampleX sampleFieldChange True sampleWorkspace) = []
   \<and> console (BlockChange_run sampleX sampleFieldChange True sampleWorkspace) =
       [(''Can't set non-existent field: '', JStr ''TEXT'')]"
  using change_missing_target [where ws = sampleWorkspace
      and e = "sampleMutation\<lparr>blockId := ''gone''\<rparr>" and X = sampleX and forward = False
      and b = sampleBlock]
    change_missing_target [where ws = sampleWorkspace and e = sampleFieldChange
      and X = sampleX and forward = True and b = sampleBlock]
  by (simp add: sample_defs BlockChange_def BlockBase_def Let_def getBlockById_def getField_def)

text \<open>
  Claim C4. The run of a change event with element \<open>mutation\<close> whose block the document
  has fires exactly one event, a change event of that block with element \<open>mutation\<close>.
  Its old value is taken before the new state is applied. For a block with the
  serializing hook it is the text of what the hook returns when that is an element or
  another truthy value; when the hook returns a falsy value it is that value, except
  that undefined is stored as the empty string. For a block without the hook it is the
  empty string. Its new value is the value the run applies, the empty string when that
  value is undefined.
\<close>

theorem mutation_echo:
  assumes "getBlockById ws (blockId e) = Some b" and "element e = JStr ''mutation''"
  shows "\<exists>ev. fired (BlockChange_run X e forward ws) = fired ws @ [ev]
     \<and> element ev = JStr ''mutation''
     \<and> blockId ev = block_id (state b)
     \<and> oldValue ev =
        (if hasMutationToDom (state b)
         then (case mutationToDom b of
                 DomElement d \<Rightarrow> JStr (domToText X (DomElement d))
               | DomOther v \<Rightarrow>
                   if truthy v then JStr (domToText X (DomOther v))
                   else if v = JUndefined then JStr []
                   else v)
         else JStr [])
     \<and> newValue ev =
        (if (if forward then newValue e else oldValue e) = JUndefined then JStr []
         else if forward then newValue e else oldValue e)"
proof (cases "mutationToDom b")
  case (DomElement d)
  with mutation_fired [OF assms, of X forward] show ?thesis
    by (simp add: BlockChange_def Let_def BlockBase_def)
next
  case (DomOther v)
  with mutation_fired [OF assms, of X forward] show ?thesis
    by (cases "v = JUndefined") (simp_all add: BlockChange_def Let_def BlockBase_def)
qed

text \<open>
  On the sample document the hook of \<open>b1\<close> returns null. With a hook that returns
  nothing the old value is the empty string, and with one that returns an element it
  is the text of the element.
\<close>

theorem mutation_echo_witness:
  "getBlockById sampleWorkspace (blockId sampleMutation) = Some sampleBlock
   \<and> element sampleMutation = JStr ''mutation''
   \<and> length (fired (BlockChange_run sampleX sampleMutation True sampleWorkspace)) = 1
   \<and> map element (fired (BlockChange_run sampleX sampleMutation True sampleWorkspace)) =
       [JStr ''mutation'']
   \<and> map newValue (fired (BlockChange_run sampleX sampleMutation True sampleWorkspace)) =
       [JStr ''<mutation/>'']
   \<and> map oldValue (fired (BlockChange_run sampleX sampleMutation True
         (sampleWorkspaceWith (DomOther JUndefined)))) = [JStr []]
   \<and> map oldValue (fired (BlockChange_run sampleX sampleMutation True
         (sampleWorkspaceWith (DomElement (Element ''mutation'' [] []))))) = [JStr ''<xml/>'']"
proof -
  have h1: "getBlockById sampleWorkspace (blockId sampleMutation) = Some sampleBlock"
    by (simp add: sample_defs BlockChange_def BlockBase_def Let_def getBlockById_def)
  have h2: "element sampleMutation = JStr ''mutation''"
    by (simp add: sample_defs BlockChange_def Let_def)
  have h3: "newValue sampleMutation = JStr ''<mutation/>''"
    by (simp add: sample_defs BlockChange_def Let_def)
  have f: "fired sampleWorkspace = []"
    by (simp add: sample_defs)
  have u1: "getBlockById (sampleWorkspaceWith (DomOther JUndefined)) (blockId sampleMutation) =
      Some (Block ((state sampleBlock)\<lparr>mutation := DomOther JUndefined\<rparr>) [sampleChild])"
    by (simp add: sample_defs BlockChange_def BlockBase_def Let_def getBlockById_def)
  have u2: "fired (sampleWorkspaceWith (DomOther JUndefined)) = []"
    by (simp add: sample_defs)
  have u3: "hasMutationToDom ((state sampleBlock)\<lparr>mutation := DomOther JUndefined\<rparr>)"
    by (simp add: sample_defs)
  have e1: "getBlockById (sampleWorkspaceWith (DomElement (Element ''mutation'' [] [])))
      (blockId sampleMutation) =
      Some (Block ((state sampleBlock)\<lparr>mutation := DomElement (Element ''mutation'' [] [])\<rparr>)
        [sampleChild])"
    by (simp add: sample_defs BlockChange_def BlockBase_def Let_def getBlockById_def)
  have e2: "fired (sampleWorkspaceWith (DomElement (Element ''mutation'' [] []))) = []"
    by (simp add: sample_defs)
  have e3: "hasMutationToDom
      ((state sampleBlock)\<lparr>mutation := DomElement (Element ''mutation'' [] [])\<rparr>)"
    by (simp add: sample_defs)
  have t: "domToText sampleX (DomElement (Element ''mutation'' [] [])) = ''<xml/>''"
    by (simp add: sample_defs)
  from mutation_echo [OF h1 h2, where X = sampleX and forward = True] h1 h2 h3 f
  have a: "length (fired (BlockChange_run sampleX sampleMutation True sampleWorkspace)) = 1
   \<and> map element (fired (BlockChange_run sampleX sampleMutation True sampleWorkspace)) =
       [JStr ''mutation'']
   \<and> map newValue (fired (BlockChange_run sampleX sampleMutation True sampleWorkspace)) =
       [JStr ''<mutation/>'']"
    by auto
  from mutation_echo [OF u1 h2, where X = sampleX and forward = True] u2 u3
  have b: "map oldValue (fired (BlockChange_run sampleX sampleMutation True
         (sampleWorkspaceWith (DomOther JUndefined)))) = [JStr []]"
    by (auto simp add: mutationToDom_def)
  from mutation_echo [OF e1 h2, where X = sampleX and forward = True] e2 e3 t
  have c: "map oldValue (fired (BlockChange_run sampleX sampleMutation True
         (sampleWorkspaceWith (DomElement (Element ''mutation'' [] []))))) = [JStr ''<xml/>'']"
    by (auto simp add: mutationToDom_def)
  from h1 h2 a b c show ?thesis by simp
qed

text \<open>
  The claim as it was worded has the old value be text, or empty for a block without the
  serializing hook. Block \<open>b1\<close> has the hook, and the hook returns null: the old value of
  the event fired is null.
\<close>

theorem mutation_echo_null_counterexample:
  "getBlockById sampleWorkspace (blockId sampleMutation) = Some sampleBlock
   \<and> hasMutationToDom (state sampleBlock)
   \<and> mutationToDom sampleBlock = DomOther JNull
   \<and> map oldValue (fired (BlockChange_run sampleX sampleMutation True sampleWorkspace)) = [JNull]"
  by (simp add: sample_defs BlockChange_run_def BlockChange_def BlockBase_def Let_def
      getBlockById_def mutationToDom_def domToMutation_def onBlock_def mutator_setVisible_def
      Events_fire_def js_or_def)

text \<open>
  Claim C5. The serialized change event has no \<open>name\<close> key exactly when the name is
  falsy. Reading the record back gives the element, the old value and the new value of
  the event; the name comes back as it was when it was truthy, and as undefined when it
  was falsy, whatever the event read into held before. Serializing the event read back
  gives the record again.
\<close>

theorem change_json_roundtrip:
  "(j_name (BlockChange_toJson e) = None \<longleftrightarrow> \<not> truthy (name e))
   \<and> element (BlockChange_fromJson e0 (BlockChange_toJson e)) = element e
   \<and> oldValue (BlockChange_fromJson e0 (BlockChange_toJson e)) = oldValue e
   \<and> newValue (BlockChange_fromJson e0 (BlockChange_toJson e)) = newValue e
   \<and> name (BlockChange_fromJson e0 (BlockChange_toJson e)) =
       (if truthy (name e) then name e else JUndefined)
   \<and> BlockChange_toJson (BlockChange_fromJson e0 (BlockChange_toJson e)) = BlockChange_toJson e"
  by (simp add: BlockChange_toJson_def BlockChange_fromJson_def j_groupOf_def groupFrom_def)

theorem change_json_roundtrip_witness:
  "truthy (name sampleFieldChange)
   \<and> j_name (BlockChange_toJson sampleFieldChange) = Some (JStr ''TEXT'')
   \<and> name (BlockChange_fromJson (BlockChange sampleWorkspace None JUndefined JUndefined
              JUndefined JUndefined) (BlockChange_toJson sampleFieldChange)) = JStr ''TEXT''
   \<and> \<not> truthy (name sampleCollapse)
   \<and> j_name (BlockChange_toJson sampleCollapse) = None"
  using change_json_roundtrip [where e = sampleFieldChange
      and ?e0.0 = "BlockChange sampleWorkspace None JUndefined JUndefined JUndefined JUndefined"]
    change_json_roundtrip [where e = sampleCollapse
      and ?e0.0 = "BlockChange sampleWorkspace None JUndefined JUndefined JUndefined JUndefined"]
  by (simp add: sample_defs BlockChange_def Let_def BlockChange_toJson_def)

text \<open>
  The claim as it was worded has the name be a string after deserialization. The
  collapse event of \<open>b1\<close> was built without a name, which the constructor made the empty
  string; read back from its own record into a blank event, its name is undefined.
\<close>

theorem change_json_name_counterexample:
  "name sampleCollapse = JStr []
   \<and> name (BlockChange_fromJson
        (BlockChange sampleWorkspace None JUndefined JUndefined JUndefined JUndefined)
        (BlockChange_toJson sampleCollapse)) = JUndefined"
  by (simp add: sample_defs BlockChange_def Let_def BlockChange_toJson_def
      BlockChange_fromJson_def)

text \<open>
  Claim C6. A creation event built from a live block has \<open>recordUndo\<close> false when the
  block is a shadow block, and else the value the base constructor gave it, which is
  true.
\<close>

theorem create_recordUndo_shadow:
  "recordUndo (BlockCreate X ws (Some b)) =
     (if isShadow (state b) then False else recordUndo (BlockBase ws (Some b)))
   \<and> recordUndo (BlockBase ws (Some b)) = True"
  by (simp add: BlockCreate_def BlockBase_def Let_def)

theorem create_recordUndo_shadow_witness:
  "isShadow (state sampleChild) \<and> \<not> isShadow (state sampleBlock)
   \<and> recordUndo (BlockCreate sampleX sampleWorkspace (Some sampleChild)) = False
   \<and> recordUndo (BlockCreate sampleX sampleWorkspace (Some sampleBlock)) = True"
  using create_recordUndo_shadow [where X = sampleX and ws = sampleWorkspace and b = sampleChild]
    create_recordUndo_shadow [where X = sampleX and ws = sampleWorkspace and b = sampleBlock]
  by (simp add: sample_defs)

text \<open>
  Claim C7. The serialized creation event has the \<open>recordUndo\<close> key exactly when
  \<open>recordUndo\<close> is false, and then with the value false. Deserialization takes
  \<open>recordUndo\<close> from the record when the key is there and keeps the value of the event
  it reads into when it is not; for a blank event that value is true. So an event read
  back from its own record into a blank event has the \<open>recordUndo\<close> it had.
\<close>

theorem create_json_recordUndo:
  "(j_recordUndo (BlockCreate_toJson X e) \<noteq> None \<longleftrightarrow> recordUndo e = False)
   \<and> j_recordUndo (BlockCreate_toJson X e) = (if recordUndo e then None else Some False)
   \<and> recordUndo (BlockCreate_fromJson X e0 json) =
       (case j_recordUndo json of Some v \<Rightarrow> v | None \<Rightarrow> recordUndo e0)
   \<and> recordUndo (BlockCreate X ws None) = True
   \<and> recordUndo (BlockCreate_fromJson X (BlockCreate X ws None) (BlockCreate_toJson X e)) =
       recordUndo e"
  by (auto simp add: BlockCreate_toJson_def BlockCreate_fromJson_def BlockCreate_def
      BlockBase_def Let_def)

theorem create_json_recordUndo_witness:
  "j_recordUndo (BlockCreate_toJson sampleX
      (BlockCreate sampleX sampleWorkspace (Some sampleChild))) = Some False
   \<and> j_recordUndo (BlockCreate_toJson sampleX sampleCreate) = None
   \<and> recordUndo (BlockCreate_fromJson sampleX (BlockCreate sampleX sampleWorkspace None)
        (BlockCreate_toJson sampleX
           (BlockCreate sampleX sampleWorkspace (Some sampleChild)))) = False
   \<and> recordUndo sampleForeignCreate = True"
  using create_json_recordUndo [where X = sampleX
      and e = "BlockCreate sampleX sampleWorkspace (Some sampleChild)"
      and ?e0.0 = "BlockCreate sampleX sampleWorkspace None" and json = sampleForeignJson
      and ws = sampleWorkspace]
    create_json_recordUndo [where X = sampleX and e = sampleCreate
      and ?e0.0 = "BlockCreate sampleX sampleWorkspace None" and json = sampleForeignJson
      and ws = sampleWorkspace]
  by (simp add: sample_defs BlockCreate_def BlockBase_def Let_def)

text \<open>
  Claim C8. A change event built from a live block stores each of its four descriptive
  parameters as given, except that an undefined one is stored as the empty string; no
  stored field is undefined.
\<close>

theorem change_constructor_normalizes:
  "element (BlockChange ws (Some b) el nm ov nv) = (if el = JUndefined then JStr [] else el)
   \<and> name (BlockChange ws (Some b) el nm ov nv) = (if nm = JUndefined then JStr [] else nm)
   \<and> oldValue (BlockChange ws (Some b) el nm ov nv) = (if ov = JUndefined then JStr [] else ov)
   \<and> newValue (BlockChange ws (Some b) el nm ov nv) = (if nv = JUndefined then JStr [] else nv)
   \<and> element (BlockChange ws (Some b) el nm ov nv) \<noteq> JUndefined
   \<and> name (BlockChange ws (Some b) el nm ov nv) \<noteq> JUndefined
   \<and> oldValue (BlockChange ws (Some b) el nm ov nv) \<noteq> JUndefined
   \<and> newValue (BlockChange ws (Some b) el nm ov nv) \<noteq> JUndefined"
  by (simp add: BlockChange_def Let_def)

theorem change_constructor_normalizes_witness:
  "element sampleCollapse = JStr ''collapsed'' \<and> name sampleCollapse = JStr []
   \<and> oldValue sampleCollapse = JBool False \<and> newValue sampleCollapse = JBool True
   \<and> name sampleMutation = JNull"
  using change_constructor_normalizes [where ws = sampleWorkspace and b = sampleBlock
      and el = "JStr ''collapsed''" and nm = JUndefined and ov = "JBool False"
      and nv = "JBool True"]
    change_constructor_normalizes [where ws = sampleWorkspace and b = sampleBlock
      and el = "JStr ''mutation''" and nm = JNull and ov = "JStr []"
      and nv = "JStr ''<mutation/>''"]
  by (simp add: sample_defs)

text \<open>
  Claim C9. The backward run of a creation event stops at the first empty identifier:
  what follows it in \<open>ids\<close> has no influence on the run, which is the run of the event
  with the identifiers before it only.
\<close>

theorem uncreate_stops_at_falsy:
  "BlockCreate_run X (e\<lparr>ids := Some (pre @ [] # post)\<rparr>) False ws =
     BlockCreate_run X (e\<lparr>ids := Some pre\<rparr>) False ws
   \<and> BlockCreate_run X e False ws =
     BlockCreate_run X (e\<lparr>ids := map_option (takeWhile (\<lambda>i. i \<noteq> [])) (ids e)\<rparr>) False ws"
proof
  show "BlockCreate_run X (e\<lparr>ids := Some (pre @ [] # post)\<rparr>) False ws =
     BlockCreate_run X (e\<lparr>ids := Some pre\<rparr>) False ws"
    by (simp add: BlockCreate_run_def uncreate_stops)
  show "BlockCreate_run X e False ws =
     BlockCreate_run X (e\<lparr>ids := map_option (takeWhile (\<lambda>i. i \<noteq> [])) (ids e)\<rparr>) False ws"
    using uncreate_takeWhile [of "blockId e" _ ws]
    by (cases "ids e") (simp_all add: BlockCreate_run_def)
qed

theorem uncreate_stops_at_falsy_witness:
  "BlockCreate_run sampleX (sampleCreate\<lparr>ids := Some ([''b2''] @ [] # [''b1''])\<rparr>) False
     sampleWorkspace =
   Inr (sampleWorkspace\<lparr>topBlocks :=
          [Block (state sampleBlock) []]\<rparr>)"
  using uncreate_stops_at_falsy [where X = sampleX and e = sampleCreate and pre = "[''b2'']"
      and post = "[''b1'']" and ws = sampleWorkspace]
  by (simp add: sample_defs BlockCreate_def BlockBase_def BlockCreate_run_def Let_def
      uncreate_body_def getBlockById_def dispose_def console_warn_def)

text \<open>
  Claim C10. The run of a change event with element \<open>mutation\<close> on a block that has
  neither structural hook leaves the block tree as it was and fires one change event
  with element \<open>mutation\<close> whose old value is the empty string.
\<close>

theorem mutation_echo_without_hooks:
  assumes "getBlockById ws (blockId e) = Some b" and "element e = JStr ''mutation''"
    and "\<not> hasMutationToDom (state b)" and "\<not> hasDomToMutation (state b)"
  shows "topBlocks (BlockChange_run X e forward ws) = topBlocks ws
    \<and> (\<exists>ev. fired (BlockChange_run X e forward ws) = fired ws @ [ev]
          \<and> element ev = JStr ''mutation'' \<and> oldValue ev = JStr [])"
  using mutation_fired [OF assms(1,2), of X forward] mutation_no_hooks [OF assms, of X forward]
    assms(3)
  by (simp add: BlockChange_def Let_def)

theorem mutation_echo_without_hooks_witness:
  "getBlockById sampleWorkspace (blockId sampleChildMutation) = Some sampleChild
   \<and> element sampleChildMutation = JStr ''mutation''
   \<and> \<not> hasMutationToDom (state sampleChild) \<and> \<not> hasDomToMutation (state sampleChild)
   \<and> topBlocks (BlockChange_run sampleX sampleChildMutation True sampleWorkspace) = [sampleBlock]
   \<and> map oldValue (fired (BlockChange_run sampleX sampleChildMutation True sampleWorkspace)) =
       [JStr []]"
proof -
  have h1: "getBlockById sampleWorkspace (blockId sampleChildMutation) = Some sampleChild"
    by (simp add: sample_defs BlockChange_def BlockBase_def Let_def getBlockById_def)
  have h2: "element sampleChildMutation = JStr ''mutation''"
    by (simp add: sample_defs BlockChange_def Let_def)
  have h3: "\<not> hasMutationToDom (state sampleChild)"
    by (simp add: sample_defs)
  have h4: "\<not> hasDomToMutation (state sampleChild)"
    by (simp add: sample_defs)
  have t: "topBlocks sampleWorkspace = [sampleBlock]"
    by (simp add: sample_defs)
  have f: "fired sampleWorkspace = []"
    by (simp add: sample_defs)
  from mutation_echo_without_hooks [OF h1 h2 h3 h4, where X = sampleX and forward = True] h1 h2 h3 h4 t f
  show ?thesis by auto
qed

end
